theory Spec2Isabelle
  imports Complex_Main
begin

section \<open>JavaScript values used by the view layer\<close>

text \<open>
  A JavaScript string is a sequence of UTF-16 code units. The Chinese tokens the parser
  looks for lie outside ASCII, so a string is modelled as the list of its code units;
  \<open>ascii\<close> embeds an ASCII literal.
\<close>

type_synonym jsstring = "nat list"

definition ascii :: "string \<Rightarrow> jsstring" where
  "ascii s = map of_char s"

text \<open>
  A JavaScript number, as far as comparisons see it: a finite value, one of the two
  infinities, or NaN. Comparisons of finite doubles are exact, so the finite values are
  taken as rationals.
\<close>

datatype jsnum = NaN | NegInf | Fin rat | PosInf

text \<open>\<open>p > c\<close> for a finite literal \<open>c\<close>: false on NaN, as in JavaScript.\<close>

fun js_gt :: "jsnum \<Rightarrow> rat \<Rightarrow> bool" where
  "js_gt NaN c = False"
| "js_gt NegInf c = False"
| "js_gt (Fin x) c = (c < x)"
| "js_gt PosInf c = True"

section \<open>String operations\<close>

text \<open>
  The string builtins the view layer calls, on code units: \<open>\d\<close> of a regular
  expression, \<open>String.prototype.includes\<close>, \<open>parseInt\<close> on a run of decimal digits, and
  the decimal rendering of a non-negative integer in a template literal. Numbers parsed
  from digit runs are exact naturals: the rounding of doubles beyond \<open>2^53\<close> and the
  exponent notation beyond \<open>10^21\<close> are outside the model.
\<close>

definition isDigit :: "nat \<Rightarrow> bool" where
  "isDigit c = (48 \<le> c \<and> c \<le> 57)"

fun startsWith :: "jsstring \<Rightarrow> jsstring \<Rightarrow> bool" where
  "startsWith s [] = True"
| "startsWith [] (t # ts) = False"
| "startsWith (c # cs) (t # ts) = (c = t \<and> startsWith cs ts)"

fun includes_str :: "jsstring \<Rightarrow> jsstring \<Rightarrow> bool" where
  "includes_str [] t = (t = [])"
| "includes_str (c # cs) t = (startsWith (c # cs) t \<or> includes_str cs t)"

definition parseInt :: "jsstring \<Rightarrow> nat" where
  "parseInt ds = foldl (\<lambda>a c. 10 * a + (c - 48)) 0 ds"

fun decimal :: "nat \<Rightarrow> jsstring" where
  "decimal n = (if n < 10 then [48 + n] else decimal (n div 10) @ [48 + n mod 10])"

declare decimal.simps [simp del]

text \<open>
  \<open>toLowerCase\<close> on the ASCII letters. The case mapping of code units beyond ASCII is not
  modelled; no such unit lowers to a letter of \<open>plus\<close> or \<open>team\<close>, so the plan filters do
  not depend on it.
\<close>

definition toLowerCase :: "jsstring \<Rightarrow> jsstring" where
  "toLowerCase s = map (\<lambda>c. if 65 \<le> c \<and> c \<le> 90 then c + 32 else c) s"

text \<open>\<open>trim\<close> removes the ECMAScript white space and line terminators at both ends.\<close>

definition isWhiteSpace :: "nat \<Rightarrow> bool" where
  "isWhiteSpace c =
     (c \<in> {0x9, 0xA, 0xB, 0xC, 0xD, 0x20, 0xA0, 0x1680, 0x2028, 0x2029, 0x202F, 0x205F,
            0x3000, 0xFEFF}
      \<or> (0x2000 \<le> c \<and> c \<le> 0x200A))"

definition trim :: "jsstring \<Rightarrow> jsstring" where
  "trim s = rev (dropWhile isWhiteSpace (rev (dropWhile isWhiteSpace s)))"

section \<open>Quota colours\<close>

text \<open>AccountList, \<open>getQuotaColor\<close>.\<close>

definition getQuotaColor :: "jsnum \<Rightarrow> jsstring" where
  "getQuotaColor percent =
     (if js_gt percent 50 then ascii ''green''
      else if js_gt percent 20 then ascii ''orange''
      else ascii ''red'')"

text \<open>UsageCard, \<open>getColorClass\<close>.\<close>

definition getColorClass :: "jsnum \<Rightarrow> jsstring" where
  "getColorClass percent =
     (if js_gt percent 50 then ascii ''green''
      else if js_gt percent 20 then ascii ''orange''
      else ascii ''red'')"

section \<open>Reset-time parsing and colour (AccountList)\<close>

text \<open>
  \<open>str.match(/(\d+)tok/)\<close> for a literal token \<open>tok\<close> that starts with a non-digit:
  the start positions are tried from the left; at each one the longest digit run is taken
  and the token must follow it. The result is the captured digit run of the leftmost
  match. (Giving digits back never helps, since the token does not start with a digit.)
\<close>

fun regex_digits_then :: "jsstring \<Rightarrow> jsstring \<Rightarrow> jsstring option" where
  "regex_digits_then tok [] = None"
| "regex_digits_then tok (c # cs) =
     (let ds = takeWhile isDigit (c # cs); rest = dropWhile isDigit (c # cs)
      in if ds \<noteq> [] \<and> startsWith rest tok then Some ds else regex_digits_then tok cs)"

text \<open>
  The result \<open>{ text, hours }\<close> of the parser, and the code units of its literals: \<open>tian\<close>
  (U+5929, day), \<open>xiaoshi\<close> (U+5C0F U+65F6, hour), \<open>fenzhong\<close> (U+5206 U+949F, minute),
  \<open>weizhi\<close> (U+672A U+77E5, unknown) and \<open>jijiang_chongzhi\<close> (U+5373 U+5C06 U+91CD U+7F6E,
  about to reset).
\<close>

record duration =
  "text" :: jsstring
  hours :: rat

definition tian :: jsstring where "tian = [0x5929]"
definition xiaoshi :: jsstring where "xiaoshi = [0x5C0F, 0x65F6]"
definition fenzhong :: jsstring where "fenzhong = [0x5206, 0x949F]"
definition weizhi :: jsstring where "weizhi = [0x672A, 0x77E5]"
definition jijiang_chongzhi :: jsstring where "jijiang_chongzhi = [0x5373, 0x5C06, 0x91CD, 0x7F6E]"

text \<open>
  \<open>let n = 0; if (match) n = parseInt(match[1])\<close>: the number captured by a match, and 0
  without one.
\<close>

definition capture :: "jsstring option \<Rightarrow> nat" where
  "capture m = (case m of None \<Rightarrow> 0 | Some ds \<Rightarrow> parseInt ds)"

text \<open>
  \<open>parseChineseDuration\<close>; \<open>None\<close> is the argument \<open>undefined\<close>, and \<open>!str\<close> also holds for the
  empty string. The local \<open>hours\<close> of the source is \<open>hrs\<close> here.
\<close>

definition parseChineseDuration :: "jsstring option \<Rightarrow> duration" where
  "parseChineseDuration str =
     (case str of
        None \<Rightarrow> \<lparr>text = ascii ''N/A'', hours = 999\<rparr>
      | Some s \<Rightarrow>
          if s = [] \<or> s = weizhi \<or> s = ascii ''N/A'' then \<lparr>text = ascii ''N/A'', hours = 999\<rparr>
          else if s = jijiang_chongzhi then \<lparr>text = ascii ''Soon'', hours = 0\<rparr>
          else
            let dayMatch = regex_digits_then tian s;
                hourMatch = regex_digits_then xiaoshi s;
                minMatch = regex_digits_then fenzhong s;
                days = capture dayMatch;
                hrs = capture hourMatch;
                mins = capture minMatch;
                totalHours = of_nat days * 24 + of_nat hrs + of_nat mins / 60;
                compactText =
                  (if days > 0 then decimal days @ ascii ''d '' @ decimal hrs @ ascii ''h''
                   else if hrs > 0 then decimal hrs @ ascii ''h '' @ decimal mins @ ascii ''m''
                   else decimal mins @ ascii ''m'');
                compactText' = (if compactText = [] then ascii ''N/A'' else compactText)
            in \<lparr>text = compactText', hours = totalHours\<rparr>)"

definition getTimeColorClass :: "jsstring option \<Rightarrow> jsstring" where
  "getTimeColorClass dateStr =
     (let h = hours (parseChineseDuration dateStr)
      in if h = 999 then ascii ''neutral''
         else if h < 1 then ascii ''success''
         else if h < 6 then ascii ''warning''
         else ascii ''neutral'')"

section \<open>The remote-invocation boundary\<close>

text \<open>
  A rejection reason. The layer only ever converts it with \<open>String(err)\<close>, interpolates it
  or rethrows it, so it is represented by the string that conversion yields. An awaited
  remote call settles to \<open>Inl err\<close> (rejected) or \<open>Inr v\<close> (fulfilled); the outcomes are the
  inputs of each operation. The operations of \<open>useAccounts\<close> and the handlers built on them
  also return the list of remote calls they made, in order.
\<close>

datatype thrown = Thrown jsstring

fun String_js :: "thrown \<Rightarrow> jsstring" where
  "String_js (Thrown s) = s"

type_synonym 'a settled = "thrown + 'a"

section \<open>Data model\<close>

text \<open>
  The fields the modelled operations read. \<open>Account\<close> also carries \<open>auth_json\<close>, \<open>created_at\<close>,
  \<open>last_used\<close>, \<open>notes\<close> and \<open>cached_quota\<close>, which none of them inspects; its \<open>id\<close> is
  \<open>id_acc\<close> here. \<open>plan_type\<close> is declared a string, and the code guards it with \<open>?.\<close>:
  \<open>None\<close> is the undefined or null it guards against.
\<close>

record AppSettings =
  auto_reload_ide :: bool
  primary_ide :: jsstring
  use_pkill_restart :: bool
  background_refresh :: bool
  refresh_interval_minutes :: jsnum
  theme :: jsstring

record Account =
  id_acc :: jsstring
  name :: jsstring

record UsageData =
  five_hour_left :: jsnum
  five_hour_reset :: jsstring
  weekly_left :: jsnum
  weekly_reset :: jsstring
  plan_type :: "jsstring option"
  is_valid_for_cli :: bool

datatype command =
    get_accounts
  | get_current_account_id
  | get_settings
  | update_settings AppSettings
  | import_current_account jsstring "jsstring option"
  | switch_account jsstring
  | delete_account jsstring
  | update_account jsstring "jsstring option" "jsstring option"
  | export_accounts
  | import_accounts jsstring
  | check_codex_login
  | start_oauth_login
  | finalize_oauth_login jsstring
  | reload_ide_windows bool
  | get_quota_by_id jsstring

section \<open>The hook useAccounts\<close>

text \<open>
  \<open>loadData\<close> awaits \<open>Promise.all\<close> of three calls, which are all made; its argument is the
  settled outcome of the whole \<open>Promise.all\<close>. \<open>loadData\<close> catches every rejection itself,
  so it never rejects.
\<close>

record useAccounts =
  accounts :: "Account list"
  currentId :: "jsstring option"
  settings :: AppSettings
  loading :: bool
  error :: "jsstring option"

type_synonym loaded = "Account list \<times> jsstring option \<times> AppSettings"

definition loadData :: "useAccounts \<Rightarrow> loaded settled \<Rightarrow> useAccounts \<times> command list" where
  "loadData st r =
     (let st1 = st\<lparr>useAccounts.loading := True, useAccounts.error := None\<rparr>;
          st2 = (case r of
                   Inr (accountList, current, appSettings) \<Rightarrow>
                     st1\<lparr>accounts := accountList, currentId := current, settings := appSettings\<rparr>
                 | Inl err \<Rightarrow> st1\<lparr>useAccounts.error := Some (String_js err)\<rparr>)
      in (st2\<lparr>useAccounts.loading := False\<rparr>, [get_accounts, get_current_account_id, get_settings]))"


definition importCurrent ::
  "useAccounts \<Rightarrow> jsstring \<Rightarrow> jsstring option \<Rightarrow> unit settled \<Rightarrow> loaded settled
     \<Rightarrow> useAccounts \<times> command list \<times> unit settled" where
  "importCurrent st nm nts r r_load =
     (let st1 = st\<lparr>useAccounts.error := None\<rparr>
      in case r of
           Inr _ \<Rightarrow>
             (let (st2, calls) = loadData st1 r_load
              in (st2, import_current_account nm nts # calls, Inr ()))
         | Inl err \<Rightarrow>
             (st1\<lparr>useAccounts.error := Some (String_js err)\<rparr>, [import_current_account nm nts], Inl err))"

definition switchTo ::
  "useAccounts \<Rightarrow> jsstring \<Rightarrow> unit settled \<Rightarrow> loaded settled
     \<Rightarrow> useAccounts \<times> command list \<times> unit settled" where
  "switchTo st i r r_load =
     (let st1 = st\<lparr>useAccounts.error := None\<rparr>
      in case r of
           Inr _ \<Rightarrow>
             (let (st2, calls) = loadData (st1\<lparr>currentId := Some i\<rparr>) r_load
              in (st2, switch_account i # calls, Inr ()))
         | Inl err \<Rightarrow>
             (st1\<lparr>useAccounts.error := Some (String_js err)\<rparr>, [switch_account i], Inl err))"







definition finalizeOAuthLogin ::
  "useAccounts \<Rightarrow> jsstring \<Rightarrow> Account settled \<Rightarrow> loaded settled
     \<Rightarrow> useAccounts \<times> command list \<times> Account settled" where
  "finalizeOAuthLogin st code r r_load =
     (let st1 = st\<lparr>useAccounts.error := None\<rparr>
      in case r of
           Inr account \<Rightarrow>
             (let (st2, calls) = loadData st1 r_load
              in (st2, finalize_oauth_login code # calls, Inr account))
         | Inl err \<Rightarrow>
             (st1\<lparr>useAccounts.error := Some (String_js err)\<rparr>, [finalize_oauth_login code], Inl err))"


section \<open>The hook useUsage\<close>

text \<open>
  The usage payload is stored as received and never inspected here, so it is a type
  parameter. The answer to \<open>get_quota_by_id\<close> is a function of the id that is sent.
  \<open>!currentId\<close> holds for null and for the empty string.
\<close>

record 'd useUsage =
  usage :: "'d option"
  loading :: bool
  error :: "jsstring option"

definition no_current_account :: jsstring where
  "no_current_account = [0x672A, 0x8BBE, 0x7F6E, 0x5F53, 0x524D, 0x8D26, 0x53F7]"

definition fetchUsage ::
  "'d useUsage \<Rightarrow> jsstring option settled \<Rightarrow> (jsstring \<Rightarrow> 'd settled) \<Rightarrow> 'd useUsage" where
  "fetchUsage st r_id r_quota =
     (let st1 = st\<lparr>useUsage.loading := True, useUsage.error := None\<rparr>;
          st2 = (case r_id of
                   Inr cur \<Rightarrow>
                     (case cur of
                        None \<Rightarrow> st1\<lparr>useUsage.error := Some no_current_account\<rparr>
                      | Some i \<Rightarrow>
                          if i = [] then st1\<lparr>useUsage.error := Some no_current_account\<rparr>
                          else (case r_quota i of
                                  Inr data \<Rightarrow> st1\<lparr>usage := Some data\<rparr>
                                | Inl err \<Rightarrow> st1\<lparr>useUsage.error := Some (String_js err)\<rparr>))
                 | Inl err \<Rightarrow> st1\<lparr>useUsage.error := Some (String_js err)\<rparr>)
      in st2\<lparr>useUsage.loading := False\<rparr>)"

section \<open>The account list\<close>

text \<open>
  The state of \<open>AccountList\<close> (\<open>filter\<close> is \<open>filter_sel\<close>). The plan filters of
  \<open>filterCounts\<close> and \<open>filteredAccounts\<close> are the same three predicates, written out twice
  in the source: \<open>plan_includes\<close> for \<open>plus\<close> and \<open>team\<close>, \<open>plan_is_free\<close> for \<open>free\<close>.
  A missing entry of \<open>usageMap\<close> and a missing \<open>plan_type\<close> are both falsy.
\<close>

datatype FilterType = F_all | F_plus | F_team | F_free

record AccountList =
  selectedIds :: "jsstring set"
  refreshingIds :: "jsstring set"
  usageMap :: "jsstring \<rightharpoonup> UsageData"
  isRefreshingAll :: bool
  searchQuery :: jsstring
  filter_sel :: FilterType
  invalidIds :: "jsstring set"

definition searchedAccounts :: "Account list \<Rightarrow> jsstring \<Rightarrow> Account list" where
  "searchedAccounts accs query =
     (if query = [] then accs
      else let lowQuery = toLowerCase query
           in filter (\<lambda>a. includes_str (toLowerCase (Account.name a)) lowQuery) accs)"

definition plan_includes :: "(jsstring \<rightharpoonup> UsageData) \<Rightarrow> jsstring \<Rightarrow> Account \<Rightarrow> bool" where
  "plan_includes um word a =
     (case um (id_acc a) of
        None \<Rightarrow> False
      | Some u \<Rightarrow>
          (case plan_type u of
             None \<Rightarrow> False
           | Some p \<Rightarrow> includes_str (toLowerCase p) word))"

definition plan_is_free :: "(jsstring \<rightharpoonup> UsageData) \<Rightarrow> Account \<Rightarrow> bool" where
  "plan_is_free um a =
     (let tier = (case um (id_acc a) of
                    None \<Rightarrow> []
                  | Some u \<Rightarrow> (case plan_type u of None \<Rightarrow> [] | Some p \<Rightarrow> toLowerCase p))
      in tier \<noteq> [] \<and> \<not> includes_str tier (ascii ''plus'') \<and> \<not> includes_str tier (ascii ''team''))"

record filter_counts =
  count_all :: nat
  count_plus :: nat
  count_team :: nat
  count_free :: nat

definition filterCounts :: "AccountList \<Rightarrow> Account list \<Rightarrow> filter_counts" where
  "filterCounts st accs =
     (let searched = searchedAccounts accs (searchQuery st)
      in \<lparr>count_all = length searched,
          count_plus = length (filter (plan_includes (usageMap st) (ascii ''plus'')) searched),
          count_team = length (filter (plan_includes (usageMap st) (ascii ''team'')) searched),
          count_free = length (filter (plan_is_free (usageMap st)) searched)\<rparr>)"

definition filteredAccounts :: "AccountList \<Rightarrow> Account list \<Rightarrow> Account list" where
  "filteredAccounts st accs =
     (let result = searchedAccounts accs (searchQuery st)
      in case filter_sel st of
           F_plus \<Rightarrow> filter (plan_includes (usageMap st) (ascii ''plus'')) result
         | F_team \<Rightarrow> filter (plan_includes (usageMap st) (ascii ''team'')) result
         | F_free \<Rightarrow> filter (plan_is_free (usageMap st)) result
         | F_all \<Rightarrow> result)"

definition handleRefreshOne :: "AccountList \<Rightarrow> jsstring \<Rightarrow> UsageData settled \<Rightarrow> AccountList" where
  "handleRefreshOne st i r =
     (let st1 = st\<lparr>refreshingIds := insert i (refreshingIds st)\<rparr>;
          st2 = st1\<lparr>invalidIds := invalidIds st1 - {i}\<rparr>;
          st3 = (case r of
                   Inr u \<Rightarrow>
                     (let st' = st2\<lparr>usageMap := (usageMap st2)(i \<mapsto> u)\<rparr>
                      in if \<not> is_valid_for_cli u
                         then st'\<lparr>invalidIds := insert i (invalidIds st')\<rparr>
                         else st')
                 | Inl err \<Rightarrow>
                     (let errStr = String_js err
                      in if includes_str errStr (ascii ''TOKEN_INVALID'')
                         then st2\<lparr>invalidIds := insert i (invalidIds st2)\<rparr>
                         else st2))
      in st3\<lparr>refreshingIds := refreshingIds st3 - {i}\<rparr>)"

text \<open>The row of an account is rendered as current when \<open>account.id === currentId\<close>.\<close>

definition isCurrent :: "jsstring option \<Rightarrow> Account \<Rightarrow> bool" where
  "isCurrent cur account = (Some (id_acc account) = cur)"

section \<open>The root view\<close>

text \<open>
  \<open>setTimeout\<close> registers a task with a delay in milliseconds; the registered timers are
  returned in order. \<open>handleSwitch\<close> awaits \<open>switchTo\<close>, which rethrows a rejection of
  \<open>switch_account\<close>: then no timer is registered. \<open>settings\<close> is the value of the render
  in which the handler was created.
\<close>

definition currentAccount :: "useAccounts \<Rightarrow> Account option" where
  "currentAccount st = find (\<lambda>a. Some (id_acc a) = currentId st) (accounts st)"

datatype timer_task = reload_ide bool | refresh_usage | success_then_close

type_synonym timer = "nat \<times> timer_task"

definition handleSwitch ::
  "useAccounts \<Rightarrow> jsstring \<Rightarrow> unit settled \<Rightarrow> loaded settled
     \<Rightarrow> useAccounts \<times> command list \<times> timer list \<times> unit settled" where
  "handleSwitch st i r r_load =
     (let (st', calls, res) = switchTo st i r r_load
      in case res of
           Inl err \<Rightarrow> (st', calls, [], Inl err)
         | Inr _ \<Rightarrow>
             (st', calls,
              (if auto_reload_ide (settings st) then [(300, reload_ide False)] else [])
                @ [(500, refresh_usage)],
              Inr ()))"

section \<open>The modal AddAccountModal\<close>

text \<open>
  The modal's own state. \<open>onAdd\<close> is \<open>importCurrent\<close> of the root view's hook; the OAuth
  operations come from the modal's own instance of \<open>useAccounts\<close>. \<open>handleClose\<close> reads
  \<open>loading\<close> and \<open>oauthStatus\<close> of the render it was created in (\<open>rendered\<close>) and
  reports whether \<open>onClose\<close> was called. The listener for \<open>oauth-callback-received\<close> is
  registered only while the modal is open.
\<close>

datatype TabType = official | openai

record AddAccountModal =
  activeTab :: TabType
  name :: jsstring
  "notes" :: jsstring
  loading :: bool
  error :: "jsstring option"
  oauthStatus :: jsstring

definition chenggong :: jsstring where "chenggong = [0x6210, 0x529F]"

definition msg_enter_name :: jsstring where
  "msg_enter_name = [0x8BF7, 0x8F93, 0x5165, 0x8D26, 0x53F7, 0x540D, 0x79F0]"



definition status_got_code :: jsstring where
  "status_got_code =
     [0x5DF2, 0x83B7, 0x53D6, 0x6388, 0x6743, 0x7801, 0xFF0C, 0x6B63, 0x5728, 0x4EA4, 0x6362,
      0x4EE4, 0x724C] @ ascii ''...''"

definition status_success :: jsstring where
  "status_success =
     [0x6388, 0x6743, 0x6210, 0x529F, 0xFF01, 0x8D26, 0x53F7, 0x5DF2, 0x6DFB, 0x52A0, 0x3002]"

definition handleClose :: "AddAccountModal \<Rightarrow> AddAccountModal \<Rightarrow> AddAccountModal \<times> bool" where
  "handleClose rendered st =
     (if AddAccountModal.loading rendered \<and> \<not> includes_str (oauthStatus rendered) chenggong
      then (st, False)
      else (st\<lparr>AddAccountModal.name := [], notes := [], AddAccountModal.error := None,
                oauthStatus := []\<rparr>, True))"

definition handleSubmitOfficial ::
  "AddAccountModal \<Rightarrow> useAccounts \<Rightarrow> unit settled \<Rightarrow> loaded settled
     \<Rightarrow> AddAccountModal \<times> useAccounts \<times> command list \<times> bool" where
  "handleSubmitOfficial m app r r_load =
     (if trim (AddAccountModal.name m) = []
      then (m\<lparr>AddAccountModal.error := Some msg_enter_name\<rparr>, app, [], False)
      else
        let m1 = m\<lparr>AddAccountModal.loading := True, AddAccountModal.error := None\<rparr>;
            (app', calls, res) =
              importCurrent app (trim (AddAccountModal.name m))
                (if trim (notes m) = [] then None else Some (trim (notes m))) r r_load
        in case res of
             Inr _ \<Rightarrow>
               (let (m2, onCloseCalled) = handleClose m m1
                in (m2\<lparr>AddAccountModal.loading := False\<rparr>, app', calls, onCloseCalled))
           | Inl err \<Rightarrow>
               (m1\<lparr>AddAccountModal.error := Some (String_js err), AddAccountModal.loading := False\<rparr>,
                app', calls, False))"


definition oauth_callback_received ::
  "bool \<Rightarrow> AddAccountModal \<Rightarrow> useAccounts \<Rightarrow> jsstring \<Rightarrow> Account settled \<Rightarrow> loaded settled
     \<Rightarrow> AddAccountModal \<times> useAccounts \<times> command list \<times> timer list" where
  "oauth_callback_received isOpen m hook code r r_load =
     (if \<not> isOpen then (m, hook, [], [])
      else
        let m1 = m\<lparr>oauthStatus := status_got_code\<rparr>;
            (hook', calls, res) = finalizeOAuthLogin hook code r r_load
        in case res of
             Inr _ \<Rightarrow>
               (m1\<lparr>oauthStatus := status_success, AddAccountModal.loading := False\<rparr>, hook', calls,
                [(1000, success_then_close)])
           | Inl err \<Rightarrow>
               (m1\<lparr>AddAccountModal.error := Some (String_js err), oauthStatus := [],
                    AddAccountModal.loading := False\<rparr>, hook', calls, []))"

section \<open>The plan filter in the words of the specification\<close>

text \<open>
  The rule as the specification words it, to be compared with the predicates of the source:
  \<open>lowered_plan_type\<close> is the lower-cased \<open>plan_type\<close> of the account's usage entry, if there
  is one, and \<open>passes_plan_filter\<close> is the condition on it for each filter.
\<close>

definition lowered_plan_type :: "(jsstring \<rightharpoonup> UsageData) \<Rightarrow> Account \<Rightarrow> jsstring option" where
  "lowered_plan_type um a =
     (case um (id_acc a) of
        None \<Rightarrow> None
      | Some u \<Rightarrow> map_option toLowerCase (plan_type u))"

definition passes_plan_filter :: "FilterType \<Rightarrow> jsstring option \<Rightarrow> bool" where
  "passes_plan_filter f lowered =
     (case f of
        F_all \<Rightarrow> True
      | F_plus \<Rightarrow> (case lowered of None \<Rightarrow> False | Some p \<Rightarrow> includes_str p (ascii ''plus''))
      | F_team \<Rightarrow> (case lowered of None \<Rightarrow> False | Some p \<Rightarrow> includes_str p (ascii ''team''))
      | F_free \<Rightarrow>
          (case lowered of
             None \<Rightarrow> False
           | Some p \<Rightarrow>
               p \<noteq> [] \<and> \<not> includes_str p (ascii ''plus'') \<and> \<not> includes_str p (ascii ''team'')))"

section \<open>Initial states\<close>

text \<open>The initial values of the \<open>useState\<close> calls.\<close>

definition initial_useAccounts :: useAccounts where
  "initial_useAccounts =
     \<lparr>accounts = [], currentId = None,
      settings = \<lparr>auto_reload_ide = False, primary_ide = ascii ''Windsurf'',
                  use_pkill_restart = False, background_refresh = True,
                  refresh_interval_minutes = Fin 30, theme = ascii ''light''\<rparr>,
      loading = True, error = None\<rparr>"

definition initial_useUsage :: "'d useUsage" where
  "initial_useUsage = \<lparr>usage = None, loading = False, error = None\<rparr>"

definition initial_AccountList :: AccountList where
  "initial_AccountList =
     \<lparr>selectedIds = {}, refreshingIds = {}, usageMap = Map.empty, isRefreshingAll = False,
      searchQuery = [], filter_sel = F_all, invalidIds = {}\<rparr>"

definition initial_AddAccountModal :: AddAccountModal where
  "initial_AddAccountModal =
     \<lparr>activeTab = openai, name = [], notes = [], loading = False, error = None,
      oauthStatus = []\<rparr>"

section \<open>Properties\<close>

subsection \<open>Quota colours\<close>

text \<open>
  C4. For every percentage value the quota colour is \<open>green\<close> when the value is strictly
  greater than 50, \<open>orange\<close> when it is strictly greater than 20 and not greater than 50,
  and \<open>red\<close> otherwise (NaN and minus infinity included); \<open>getQuotaColor\<close> of the account
  list and \<open>getColorClass\<close> of the usage card are the same function.
\<close>

theorem quota_color_thresholds:
  "getQuotaColor (Fin x) =
     (if 50 < x then ascii ''green'' else if 20 < x then ascii ''orange'' else ascii ''red'')
   \<and> getQuotaColor PosInf = ascii ''green''
   \<and> getQuotaColor NegInf = ascii ''red''
   \<and> getQuotaColor NaN = ascii ''red''
   \<and> getColorClass = getQuotaColor"
  by (simp add: getQuotaColor_def getColorClass_def fun_eq_iff)

subsection \<open>Digit runs and the token matcher\<close>

lemma parseInt_snoc: "parseInt (xs @ [c]) = 10 * parseInt xs + (c - 48)"
  by (simp add: parseInt_def)

lemma parseInt_decimal: "parseInt (decimal n) = n"
proof (induction n rule: decimal.induct)
  case (1 n)
  show ?case
  proof (cases "n < 10")
    case True
    then show ?thesis by (simp add: decimal.simps [of n] parseInt_def)
  next
    case False
    with 1 show ?thesis by (simp add: decimal.simps [of n] parseInt_snoc)
  qed
qed

lemma decimal_digits: "list_all isDigit (decimal n)"
proof (induction n rule: decimal.induct)
  case (1 n)
  show ?case
  proof (cases "n < 10")
    case True
    then show ?thesis by (simp add: decimal.simps [of n] isDigit_def)
  next
    case False
    have "n mod 10 < 10" by simp
    with False 1 show ?thesis by (simp add: decimal.simps [of n] isDigit_def)
  qed
qed

lemma decimal_nonempty: "decimal n \<noteq> []"
  by (subst decimal.simps) simp

lemma startsWith_append: "startsWith (t @ s) t"
  by (induction t) auto

lemma regex_skip_nondigits:
  "list_all (\<lambda>c. \<not> isDigit c) a \<Longrightarrow> regex_digits_then tok (a @ s) = regex_digits_then tok s"
  by (induction a) auto

lemma takeWhile_run:
  "list_all isDigit ds \<Longrightarrow> s = [] \<or> \<not> isDigit (hd s) \<Longrightarrow> takeWhile isDigit (ds @ s) = ds"
proof (induction ds)
  case Nil
  then show ?case by (cases s) auto
next
  case (Cons d ds)
  then show ?case by simp
qed

lemma dropWhile_run:
  "list_all isDigit ds \<Longrightarrow> s = [] \<or> \<not> isDigit (hd s) \<Longrightarrow> dropWhile isDigit (ds @ s) = s"
proof (induction ds)
  case Nil
  then show ?case by (cases s) auto
next
  case (Cons d ds)
  then show ?case by simp
qed

lemma regex_hit:
  assumes "ds \<noteq> []" "list_all isDigit ds" "tok \<noteq> []" "\<not> isDigit (hd tok)"
  shows "regex_digits_then tok (ds @ tok @ post) = Some ds"
proof -
  from assms(1) obtain d ds' where ds: "ds = d # ds'" by (cases ds) auto
  have h: "tok @ post = [] \<or> \<not> isDigit (hd (tok @ post))" using assms(3,4) by simp
  have "takeWhile isDigit (ds @ tok @ post) = ds" "dropWhile isDigit (ds @ tok @ post) = tok @ post"
    using takeWhile_run [OF assms(2) h] dropWhile_run [OF assms(2) h] by simp_all
  then show ?thesis using assms(1) startsWith_append [of tok post]
    by (simp add: ds Let_def del: takeWhile.simps dropWhile.simps)
qed

lemma regex_skip_run:
  assumes "list_all isDigit ds" "s = [] \<or> \<not> isDigit (hd s)" "\<not> startsWith s tok"
  shows "regex_digits_then tok (ds @ s) = regex_digits_then tok s"
  using assms(1)
proof (induction ds)
  case Nil
  show ?case by simp
next
  case (Cons d ds)
  then have run: "list_all isDigit (d # ds)" by simp
  have "dropWhile isDigit ((d # ds) @ s) = s"
    using dropWhile_run [OF run assms(2)] .
  then have "regex_digits_then tok ((d # ds) @ s) = regex_digits_then tok (ds @ s)"
    using assms(3) by (simp add: Let_def del: dropWhile.simps takeWhile.simps)
  with Cons show ?case by simp
qed

lemma startsWith_iff: "startsWith s t \<longleftrightarrow> (\<exists>q. s = t @ q)"
  by (induction s t rule: startsWith.induct) auto

text \<open>
  What the matcher captures is a non-empty run of digits that stands directly before the
  token in the input.
\<close>

lemma regex_digits_then_sound:
  "regex_digits_then tok s = Some ds \<Longrightarrow>
     ds \<noteq> [] \<and> list_all isDigit ds \<and> (\<exists>pre post. s = pre @ ds @ tok @ post)"
proof (induction tok s rule: regex_digits_then.induct)
  case (1 tok)
  then show ?case by simp
next
  case (2 tok c cs)
  let ?run = "takeWhile isDigit (c # cs)"
  let ?rest = "dropWhile isDigit (c # cs)"
  show ?case
  proof (cases "?run \<noteq> [] \<and> startsWith ?rest tok")
    case True
    with 2(2) have ds: "ds = ?run" by (simp add: Let_def del: takeWhile.simps dropWhile.simps)
    from True obtain q where q: "?rest = tok @ q" by (auto simp: startsWith_iff simp del: dropWhile.simps)
    have "c # cs = ?run @ ?rest" by (simp only: takeWhile_dropWhile_id)
    then have "c # cs = [] @ ds @ tok @ q" using ds q by simp
    then have ex: "\<exists>pre post. c # cs = pre @ ds @ tok @ post" by blast
    have dg: "list_all isDigit ds" unfolding ds list_all_iff by (auto dest: set_takeWhileD)
    from True have "ds \<noteq> []" unfolding ds by blast
    with dg ex show ?thesis by blast
  next
    case False
    with 2(2) have "regex_digits_then tok cs = Some ds"
      by (simp add: Let_def del: takeWhile.simps dropWhile.simps)
    with 2(1) [OF refl refl False] obtain pre post
      where "ds \<noteq> []" "list_all isDigit ds" "cs = pre @ ds @ tok @ post" by blast
    then have "c # cs = (c # pre) @ ds @ tok @ post" by simp
    with \<open>ds \<noteq> []\<close> \<open>list_all isDigit ds\<close> show ?thesis by blast
  qed
qed

lemma digit_free_tokens:
  "list_all (\<lambda>c. \<not> isDigit c) tian" "list_all (\<lambda>c. \<not> isDigit c) xiaoshi"
  "list_all (\<lambda>c. \<not> isDigit c) fenzhong"
  by (simp_all add: tian_def xiaoshi_def fenzhong_def isDigit_def)

lemma canonical_matches:
  fixes d h m :: nat and e :: jsstring
  assumes a: "list_all (\<lambda>c. \<not> isDigit c) a"
    and b: "list_all (\<lambda>c. \<not> isDigit c) b"
    and c: "list_all (\<lambda>c. \<not> isDigit c) c"
  defines "s \<equiv> a @ decimal d @ tian @ b @ decimal h @ xiaoshi @ c @ decimal m @ fenzhong @ e"
  shows "regex_digits_then tian s = Some (decimal d)"
    and "regex_digits_then xiaoshi s = Some (decimal h)"
    and "regex_digits_then fenzhong s = Some (decimal m)"
proof -
  have nd: "\<not> isDigit (hd tian)" "\<not> isDigit (hd xiaoshi)" "\<not> isDigit (hd fenzhong)"
    "tian \<noteq> []" "xiaoshi \<noteq> []" "fenzhong \<noteq> []"
    by (simp_all add: tian_def xiaoshi_def fenzhong_def isDigit_def)
  have tb: "list_all (\<lambda>c. \<not> isDigit c) (tian @ b)" "list_all (\<lambda>c. \<not> isDigit c) (xiaoshi @ c)"
    using b c digit_free_tokens by simp_all
  show "regex_digits_then tian s = Some (decimal d)"
    unfolding s_def
    by (simp only: regex_skip_nondigits [OF a]
          regex_hit [OF decimal_nonempty decimal_digits nd(4) nd(1)])
  let ?s2 = "decimal h @ xiaoshi @ c @ decimal m @ fenzhong @ e"
  have skip_d: "\<And>tok. \<not> startsWith (tian @ b @ ?s2) tok \<Longrightarrow>
      regex_digits_then tok s = regex_digits_then tok ?s2"
  proof -
    fix tok assume n: "\<not> startsWith (tian @ b @ ?s2) tok"
    have "regex_digits_then tok s = regex_digits_then tok (decimal d @ (tian @ b @ ?s2))"
      unfolding s_def by (simp only: regex_skip_nondigits [OF a])
    also have "\<dots> = regex_digits_then tok (tian @ b @ ?s2)"
      by (rule regex_skip_run [OF decimal_digits _ n]) (simp add: tian_def isDigit_def)
    also have "\<dots> = regex_digits_then tok ((tian @ b) @ ?s2)" by simp
    also have "\<dots> = regex_digits_then tok ?s2"
      by (rule regex_skip_nondigits [OF tb(1)])
    finally show "regex_digits_then tok s = regex_digits_then tok ?s2" .
  qed
  have "\<not> startsWith (tian @ b @ ?s2) xiaoshi" by (simp add: tian_def xiaoshi_def)
  from skip_d [OF this] show "regex_digits_then xiaoshi s = Some (decimal h)"
    by (simp only: regex_hit [OF decimal_nonempty decimal_digits nd(5) nd(2)])
  let ?s3 = "decimal m @ fenzhong @ e"
  have "\<not> startsWith (tian @ b @ ?s2) fenzhong" by (simp add: tian_def fenzhong_def)
  from skip_d [OF this]
  have "regex_digits_then fenzhong s = regex_digits_then fenzhong (decimal h @ (xiaoshi @ c @ ?s3))"
    by simp
  also have "\<dots> = regex_digits_then fenzhong (xiaoshi @ c @ ?s3)"
    by (rule regex_skip_run [OF decimal_digits]) (simp_all add: xiaoshi_def fenzhong_def isDigit_def)
  also have "\<dots> = regex_digits_then fenzhong ((xiaoshi @ c) @ ?s3)" by simp
  also have "\<dots> = regex_digits_then fenzhong ?s3"
    by (rule regex_skip_nondigits [OF tb(2)])
  also have "\<dots> = Some (decimal m)"
    by (rule regex_hit [OF decimal_nonempty decimal_digits nd(6) nd(3)])
  finally show "regex_digits_then fenzhong s = Some (decimal m)" .
qed

subsection \<open>The duration parser\<close>

lemma digit_in_special:
  "list_all (\<lambda>c. \<not> isDigit c) weizhi" "list_all (\<lambda>c. \<not> isDigit c) (ascii ''N/A'')"
  "list_all (\<lambda>c. \<not> isDigit c) jijiang_chongzhi"
  by (simp_all add: weizhi_def jijiang_chongzhi_def ascii_def isDigit_def)

lemma has_digit_not_special:
  assumes "\<not> list_all (\<lambda>c. \<not> isDigit c) s"
  shows "s \<noteq> [] \<and> s \<noteq> weizhi \<and> s \<noteq> ascii ''N/A'' \<and> s \<noteq> jijiang_chongzhi"
  using assms digit_in_special by auto

lemma parse_general:
  assumes "s \<noteq> []" "s \<noteq> weizhi" "s \<noteq> ascii ''N/A''" "s \<noteq> jijiang_chongzhi"
  shows "hours (parseChineseDuration (Some s)) =
    of_nat (capture (regex_digits_then tian s)) * 24
    + of_nat (capture (regex_digits_then xiaoshi s))
    + of_nat (capture (regex_digits_then fenzhong s)) / 60"
  using assms by (simp add: parseChineseDuration_def Let_def)

text \<open>
  The total for an input that holds the three patterns, with digit-free text before and
  between them.
\<close>

lemma canonical_hours:
  assumes a: "list_all (\<lambda>x. \<not> isDigit x) a" and b: "list_all (\<lambda>x. \<not> isDigit x) b"
    and c: "list_all (\<lambda>x. \<not> isDigit x) c"
  shows "hours (parseChineseDuration (Some
           (a @ decimal d @ tian @ b @ decimal h @ xiaoshi @ c @ decimal m @ fenzhong @ e)))
         = of_nat d * 24 + of_nat h + of_nat m / 60"
proof -
  let ?s = "a @ decimal d @ tian @ b @ decimal h @ xiaoshi @ c @ decimal m @ fenzhong @ e"
  obtain x xs where dx: "decimal d = x # xs"
    using decimal_nonempty [of d] by (cases "decimal d") auto
  then have "isDigit x" using decimal_digits [of d] by simp
  then have "\<not> list_all (\<lambda>c. \<not> isDigit c) ?s" by (simp add: dx)
  from has_digit_not_special [OF this]
  have "hours (parseChineseDuration (Some ?s)) =
    of_nat (capture (regex_digits_then tian ?s)) * 24
    + of_nat (capture (regex_digits_then xiaoshi ?s))
    + of_nat (capture (regex_digits_then fenzhong ?s)) / 60"
    by (intro parse_general) simp_all
  then show ?thesis
    by (simp only: canonical_matches [OF a b c] capture_def option.case parseInt_decimal)
qed

text \<open>
  C2. The duration parser is a function of its input string. For an input that holds the
  patterns \<open><d>tian\<close>, \<open><h>xiaoshi\<close>, \<open><m>fenzhong\<close> (the day, hour and minute tokens, each
  after a decimal number, with digit-free text before and between them) the total is
  \<open>d * 24 + h + m / 60\<close> hours. For every input other than the special ones the total is
  that sum over the numbers the three regular expressions capture (the leftmost match of
  each), where a token that does not occur counts 0. The inputs undefined, \<open>weizhi\<close> and
  \<open>N/A\<close> give the sentinel 999 hours with text \<open>N/A\<close>; the input \<open>jijiang_chongzhi\<close> gives 0
  hours with text \<open>Soon\<close>.
\<close>

theorem parseChineseDuration_tokens:
  "(list_all (\<lambda>x. \<not> isDigit x) a \<and> list_all (\<lambda>x. \<not> isDigit x) b \<and>
    list_all (\<lambda>x. \<not> isDigit x) c \<longrightarrow>
     hours (parseChineseDuration (Some
        (a @ decimal d @ tian @ b @ decimal h @ xiaoshi @ c @ decimal m @ fenzhong @ e)))
       = of_nat d * 24 + of_nat h + of_nat m / 60)
   \<and> (s \<noteq> [] \<and> s \<noteq> weizhi \<and> s \<noteq> ascii ''N/A'' \<and> s \<noteq> jijiang_chongzhi \<longrightarrow>
        hours (parseChineseDuration (Some s)) =
          of_nat (capture (regex_digits_then tian s)) * 24
          + of_nat (capture (regex_digits_then xiaoshi s))
          + of_nat (capture (regex_digits_then fenzhong s)) / 60)
   \<and> parseChineseDuration None = \<lparr>text = ascii ''N/A'', hours = 999\<rparr>
   \<and> parseChineseDuration (Some weizhi) = \<lparr>text = ascii ''N/A'', hours = 999\<rparr>
   \<and> parseChineseDuration (Some (ascii ''N/A'')) = \<lparr>text = ascii ''N/A'', hours = 999\<rparr>
   \<and> parseChineseDuration (Some jijiang_chongzhi) = \<lparr>text = ascii ''Soon'', hours = 0\<rparr>"
proof -
  let ?s = "a @ decimal d @ tian @ b @ decimal h @ xiaoshi @ c @ decimal m @ fenzhong @ e"
  have main: "hours (parseChineseDuration (Some ?s)) = of_nat d * 24 + of_nat h + of_nat m / 60"
    if "list_all (\<lambda>x. \<not> isDigit x) a" "list_all (\<lambda>x. \<not> isDigit x) b"
      "list_all (\<lambda>x. \<not> isDigit x) c"
    using that by (rule canonical_hours)
  have j: "jijiang_chongzhi \<noteq> []" "jijiang_chongzhi \<noteq> weizhi" "jijiang_chongzhi \<noteq> ascii ''N/A''"
    by (simp_all add: jijiang_chongzhi_def weizhi_def ascii_def)
  have special: "parseChineseDuration None = \<lparr>text = ascii ''N/A'', hours = 999\<rparr>"
    "parseChineseDuration (Some weizhi) = \<lparr>text = ascii ''N/A'', hours = 999\<rparr>"
    "parseChineseDuration (Some (ascii ''N/A'')) = \<lparr>text = ascii ''N/A'', hours = 999\<rparr>"
    "parseChineseDuration (Some jijiang_chongzhi) = \<lparr>text = ascii ''Soon'', hours = 0\<rparr>"
    using j by (simp_all add: parseChineseDuration_def)
  show ?thesis using main parse_general [of s] special by blast
qed

theorem parseChineseDuration_tokens_witness:
  "list_all (\<lambda>x. \<not> isDigit x) (ascii '' '')
   \<and> hours (parseChineseDuration
        (Some (ascii ''2'' @ tian @ ascii '' 3'' @ xiaoshi @ ascii ''30'' @ fenzhong)))
       = 2 * 24 + 3 + 30 / 60
   \<and> hours (parseChineseDuration (Some (ascii ''3'' @ xiaoshi @ ascii ''20'' @ fenzhong)))
       = 0 * 24 + 3 + 20 / 60"
proof -
  have sep: "list_all (\<lambda>x. \<not> isDigit x) []" "list_all (\<lambda>x. \<not> isDigit x) (ascii '' '')"
    by (simp_all add: ascii_def isDigit_def)
  have "hours (parseChineseDuration (Some
        ([] @ decimal 2 @ tian @ ascii '' '' @ decimal 3 @ xiaoshi @ [] @ decimal 30 @ fenzhong @ [])))
       = of_nat 2 * 24 + of_nat 3 + of_nat 30 / 60"
    using parseChineseDuration_tokens [of "[]" "ascii '' ''" "[]" 2 3 30 "[]"] sep by blast
  then have one: "hours (parseChineseDuration
        (Some (ascii ''2'' @ tian @ ascii '' 3'' @ xiaoshi @ ascii ''30'' @ fenzhong)))
       = 2 * 24 + 3 + 30 / 60"
    by (simp add: decimal.simps ascii_def)
  let ?s = "ascii ''3'' @ xiaoshi @ ascii ''20'' @ fenzhong"
  have ns: "?s \<noteq> [] \<and> ?s \<noteq> weizhi \<and> ?s \<noteq> ascii ''N/A'' \<and> ?s \<noteq> jijiang_chongzhi"
    by (simp add: ascii_def weizhi_def jijiang_chongzhi_def xiaoshi_def)
  have "hours (parseChineseDuration (Some ?s)) =
          of_nat (capture (regex_digits_then tian ?s)) * 24
          + of_nat (capture (regex_digits_then xiaoshi ?s))
          + of_nat (capture (regex_digits_then fenzhong ?s)) / 60"
    using parseChineseDuration_tokens [where s = ?s] ns by blast
  then have two: "hours (parseChineseDuration (Some ?s)) = 0 * 24 + 3 + 20 / 60"
    by (simp add: ascii_def tian_def xiaoshi_def fenzhong_def isDigit_def capture_def parseInt_def)
  from sep one two show ?thesis by blast
qed

subsection \<open>The reset-time colour\<close>

text \<open>
  An input that is none of the special ones and in which none of the three regular
  expressions matches parses to 0 hours, with text \<open>0m\<close>.
\<close>

lemma no_token_parses_to_zero:
  assumes "s \<noteq> []" "s \<noteq> weizhi" "s \<noteq> ascii ''N/A''" "s \<noteq> jijiang_chongzhi"
    and "regex_digits_then tian s = None" "regex_digits_then xiaoshi s = None"
      "regex_digits_then fenzhong s = None"
  shows "parseChineseDuration (Some s) = \<lparr>text = ascii ''0m'', hours = 0\<rparr>"
  using assms by (simp add: parseChineseDuration_def capture_def decimal.simps ascii_def)

lemma threshold_colour:
  "getTimeColorClass s =
     (if hours (parseChineseDuration s) < 1 then ascii ''success''
      else if hours (parseChineseDuration s) < 6 then ascii ''warning''
      else ascii ''neutral'')"
  by (simp add: getTimeColorClass_def Let_def)

text \<open>The total in whole minutes, to compare it with the thresholds.\<close>

lemma hours_as_minutes:
  fixes d h m :: nat
  shows "(of_nat d * 24 + of_nat h + of_nat m / 60 :: rat) = of_nat ((d * 24 + h) * 60 + m) / 60"
  by (simp add: field_simps)

lemma minutes_below:
  fixes t k :: nat
  shows "(of_nat t / 60 :: rat) < of_nat k \<longleftrightarrow> t < k * 60"
proof -
  have "(of_nat t / 60 :: rat) < of_nat k \<longleftrightarrow> (of_nat t :: rat) < of_nat (k * 60)"
    by (simp add: field_simps)
  also have "\<dots> \<longleftrightarrow> t < k * 60" by (simp only: of_nat_less_iff)
  finally show ?thesis .
qed

text \<open>
  C5, in the form that holds of the code. For every reset-time string the time colour is
  \<open>success\<close> when the parsed remaining time is strictly less than 1 hour, \<open>warning\<close> when it
  is at least 1 hour and strictly less than 6 hours, and \<open>neutral\<close> otherwise. For an input
  that holds the three patterns this is decided by the total \<open>(d * 24 + h) * 60 + m\<close> of
  minutes: below 60, below 360, or not. The unknown inputs (undefined, the empty string,
  \<open>weizhi\<close>, \<open>N/A\<close>) parse to the sentinel and are \<open>neutral\<close>. The input \<open>jijiang_chongzhi\<close>,
  and every other input in which none of the three patterns occurs, parses to 0 hours and
  is \<open>success\<close>.
\<close>

theorem getTimeColorClass_thresholds:
  "getTimeColorClass s =
     (if hours (parseChineseDuration s) < 1 then ascii ''success''
      else if hours (parseChineseDuration s) < 6 then ascii ''warning''
      else ascii ''neutral'')
   \<and> (list_all (\<lambda>x. \<not> isDigit x) a \<and> list_all (\<lambda>x. \<not> isDigit x) b \<and>
      list_all (\<lambda>x. \<not> isDigit x) c \<longrightarrow>
        getTimeColorClass (Some
          (a @ decimal d @ tian @ b @ decimal h @ xiaoshi @ c @ decimal m @ fenzhong @ e))
        = (if (d * 24 + h) * 60 + m < 60 then ascii ''success''
           else if (d * 24 + h) * 60 + m < 360 then ascii ''warning''
           else ascii ''neutral''))
   \<and> getTimeColorClass None = ascii ''neutral''
   \<and> getTimeColorClass (Some []) = ascii ''neutral''
   \<and> getTimeColorClass (Some weizhi) = ascii ''neutral''
   \<and> getTimeColorClass (Some (ascii ''N/A'')) = ascii ''neutral''
   \<and> getTimeColorClass (Some jijiang_chongzhi) = ascii ''success''
   \<and> (t \<noteq> [] \<and> t \<noteq> weizhi \<and> t \<noteq> ascii ''N/A''
      \<and> regex_digits_then tian t = None \<and> regex_digits_then xiaoshi t = None
      \<and> regex_digits_then fenzhong t = None
        \<longrightarrow> getTimeColorClass (Some t) = ascii ''success'')"
proof -
  let ?s = "a @ decimal d @ tian @ b @ decimal h @ xiaoshi @ c @ decimal m @ fenzhong @ e"
  let ?t = "(d * 24 + h) * 60 + m"
  have canon: "getTimeColorClass (Some ?s)
        = (if ?t < 60 then ascii ''success''
           else if ?t < 360 then ascii ''warning''
           else ascii ''neutral'')"
    if sep: "list_all (\<lambda>x. \<not> isDigit x) a" "list_all (\<lambda>x. \<not> isDigit x) b"
        "list_all (\<lambda>x. \<not> isDigit x) c"
  proof -
    have hrs: "hours (parseChineseDuration (Some ?s)) = of_nat ?t / 60"
      using canonical_hours [OF sep, of d h m e] by (simp only: hours_as_minutes)
    have one: "(of_nat ?t / 60 :: rat) < 1 \<longleftrightarrow> ?t < 60"
      using minutes_below [of ?t 1] by simp
    have six: "(of_nat ?t / 60 :: rat) < 6 \<longleftrightarrow> ?t < 360"
      using minutes_below [of ?t 6] by simp
    show ?thesis by (simp only: threshold_colour hrs one six)
  qed
  have unknown: "getTimeColorClass None = ascii ''neutral''"
    "getTimeColorClass (Some []) = ascii ''neutral''"
    "getTimeColorClass (Some weizhi) = ascii ''neutral''"
    "getTimeColorClass (Some (ascii ''N/A'')) = ascii ''neutral''"
    by (simp_all add: getTimeColorClass_def Let_def parseChineseDuration_def)
  have j: "jijiang_chongzhi \<noteq> []" "jijiang_chongzhi \<noteq> weizhi" "jijiang_chongzhi \<noteq> ascii ''N/A''"
    by (simp_all add: jijiang_chongzhi_def weizhi_def ascii_def)
  have soon: "getTimeColorClass (Some jijiang_chongzhi) = ascii ''success''"
    using j by (simp add: getTimeColorClass_def Let_def parseChineseDuration_def)
  have none: "getTimeColorClass (Some t) = ascii ''success''"
    if t: "t \<noteq> []" "t \<noteq> weizhi" "t \<noteq> ascii ''N/A''"
      and r: "regex_digits_then tian t = None" "regex_digits_then xiaoshi t = None"
        "regex_digits_then fenzhong t = None"
  proof (cases "t = jijiang_chongzhi")
    case True
    with soon show ?thesis by simp
  next
    case False
    from no_token_parses_to_zero [OF t False r] show ?thesis
      by (simp add: getTimeColorClass_def)
  qed
  show ?thesis using threshold_colour [of s] canon unknown soon none by blast
qed

theorem getTimeColorClass_thresholds_witness:
  "getTimeColorClass (Some (ascii ''0'' @ tian @ ascii ''0'' @ xiaoshi @ ascii ''59'' @ fenzhong))
     = ascii ''success''
   \<and> getTimeColorClass (Some (ascii ''0'' @ tian @ ascii ''1'' @ xiaoshi @ ascii ''0'' @ fenzhong))
     = ascii ''warning''
   \<and> getTimeColorClass (Some (ascii ''0'' @ tian @ ascii ''5'' @ xiaoshi @ ascii ''59'' @ fenzhong))
     = ascii ''warning''
   \<and> getTimeColorClass (Some (ascii ''0'' @ tian @ ascii ''6'' @ xiaoshi @ ascii ''0'' @ fenzhong))
     = ascii ''neutral''
   \<and> getTimeColorClass (Some (ascii ''2'' @ tian @ ascii '' 3'' @ xiaoshi @ ascii ''30'' @ fenzhong))
     = ascii ''neutral''
   \<and> getTimeColorClass (Some (ascii ''tomorrow'')) = ascii ''success''
   \<and> getTimeColorClass (Some (ascii ''2025-01-01'')) = ascii ''success''"
proof -
  have sep: "list_all (\<lambda>x. \<not> isDigit x) [] \<and> list_all (\<lambda>x. \<not> isDigit x) [] \<and>
      list_all (\<lambda>x. \<not> isDigit x) []"
    "list_all (\<lambda>x. \<not> isDigit x) [] \<and> list_all (\<lambda>x. \<not> isDigit x) (ascii '' '') \<and>
      list_all (\<lambda>x. \<not> isDigit x) []"
    by (simp_all add: ascii_def isDigit_def)
  have c: "getTimeColorClass (Some
          ([] @ decimal d @ tian @ [] @ decimal h @ xiaoshi @ [] @ decimal m @ fenzhong @ []))
        = (if (d * 24 + h) * 60 + m < 60 then ascii ''success''
           else if (d * 24 + h) * 60 + m < 360 then ascii ''warning''
           else ascii ''neutral'')" for d h m
    using getTimeColorClass_thresholds [where a = "[]" and b = "[]" and c = "[]" and e = "[]"
        and d = d and h = h and m = m] sep(1) by blast
  have "getTimeColorClass (Some
          ([] @ decimal 2 @ tian @ ascii '' '' @ decimal 3 @ xiaoshi @ [] @ decimal 30 @ fenzhong @ []))
        = (if (2 * 24 + 3) * 60 + 30 < (60::nat) then ascii ''success''
           else if (2 * 24 + 3) * 60 + 30 < (360::nat) then ascii ''warning''
           else ascii ''neutral'')"
    using getTimeColorClass_thresholds [where a = "[]" and b = "ascii '' ''" and c = "[]"
        and e = "[]" and d = 2 and h = 3 and m = 30] sep(2) by blast
  then have c2: "getTimeColorClass (Some
          ([] @ decimal 2 @ tian @ ascii '' '' @ decimal 3 @ xiaoshi @ [] @ decimal 30 @ fenzhong @ []))
        = ascii ''neutral''"
    by simp
  have t: "ascii ''tomorrow'' \<noteq> [] \<and> ascii ''tomorrow'' \<noteq> weizhi
      \<and> ascii ''tomorrow'' \<noteq> ascii ''N/A''
      \<and> regex_digits_then tian (ascii ''tomorrow'') = None
      \<and> regex_digits_then xiaoshi (ascii ''tomorrow'') = None
      \<and> regex_digits_then fenzhong (ascii ''tomorrow'') = None"
    by (simp add: ascii_def isDigit_def weizhi_def)
  have tm: "getTimeColorClass (Some (ascii ''tomorrow'')) = ascii ''success''"
    using getTimeColorClass_thresholds [where t = "ascii ''tomorrow''"] t by blast
  have u: "ascii ''2025-01-01'' \<noteq> [] \<and> ascii ''2025-01-01'' \<noteq> weizhi
      \<and> ascii ''2025-01-01'' \<noteq> ascii ''N/A''
      \<and> regex_digits_then tian (ascii ''2025-01-01'') = None
      \<and> regex_digits_then xiaoshi (ascii ''2025-01-01'') = None
      \<and> regex_digits_then fenzhong (ascii ''2025-01-01'') = None"
    by (simp add: ascii_def isDigit_def weizhi_def tian_def xiaoshi_def fenzhong_def)
  have dt: "getTimeColorClass (Some (ascii ''2025-01-01'')) = ascii ''success''"
    using getTimeColorClass_thresholds [where t = "ascii ''2025-01-01''"] u by blast
  show ?thesis
    using c [of 0 0 59] c [of 0 1 0] c [of 0 5 59] c [of 0 6 0] c2 tm dt
    by (simp add: decimal.simps ascii_def)
qed

text \<open>
  C5 as stated fails for an input that cannot be parsed: \<open>tomorrow\<close> holds no token, parses
  to 0 hours and is \<open>success\<close>, not \<open>neutral\<close>.
\<close>

theorem getTimeColorClass_unparseable_not_neutral:
  "getTimeColorClass (Some (ascii ''tomorrow'')) = ascii ''success''
   \<and> getTimeColorClass (Some (ascii ''tomorrow'')) \<noteq> ascii ''neutral''"
proof -
  have "regex_digits_then tok (ascii ''tomorrow'') = None" for tok
    by (simp add: ascii_def isDigit_def)
  then have "parseChineseDuration (Some (ascii ''tomorrow'')) = \<lparr>text = ascii ''0m'', hours = 0\<rparr>"
    by (simp add: parseChineseDuration_def capture_def decimal.simps)
      (simp add: ascii_def weizhi_def jijiang_chongzhi_def)
  then show ?thesis by (simp add: getTimeColorClass_def) (simp add: ascii_def)
qed

subsection \<open>Substrings and trimming\<close>

lemma includes_str_iff: "includes_str s t \<longleftrightarrow> (\<exists>p q. s = p @ t @ q)"
proof (induction s)
  case Nil
  show ?case by auto
next
  case (Cons c cs)
  show ?case
  proof
    assume "includes_str (c # cs) t"
    then consider "startsWith (c # cs) t" | "includes_str cs t" by auto
    then show "\<exists>p q. c # cs = p @ t @ q"
    proof cases
      case 1
      then obtain q where "c # cs = t @ q" by (auto simp: startsWith_iff)
      then have "c # cs = [] @ t @ q" by simp
      then show ?thesis by blast
    next
      case 2
      with Cons obtain p q where "cs = p @ t @ q" by auto
      then have "c # cs = (c # p) @ t @ q" by simp
      then show ?thesis by blast
    qed
  next
    assume "\<exists>p q. c # cs = p @ t @ q"
    then obtain p q where pq: "c # cs = p @ t @ q" by blast
    show "includes_str (c # cs) t"
    proof (cases p)
      case Nil
      with pq have "startsWith (c # cs) t" by (auto simp: startsWith_iff)
      then show ?thesis by simp
    next
      case (Cons x p')
      with pq have "cs = p' @ t @ q" by simp
      with Cons.IH have "includes_str cs t" by blast
      then show ?thesis by simp
    qed
  qed
qed

lemma trim_empty_iff: "trim s = [] \<longleftrightarrow> list_all isWhiteSpace s"
proof -
  have h: "dropWhile isWhiteSpace (rev (dropWhile isWhiteSpace s)) = []
          \<longleftrightarrow> dropWhile isWhiteSpace s = []"
  proof
    assume a: "dropWhile isWhiteSpace (rev (dropWhile isWhiteSpace s)) = []"
    show "dropWhile isWhiteSpace s = []"
    proof (rule ccontr)
      assume n: "dropWhile isWhiteSpace s \<noteq> []"
      then have "\<not> isWhiteSpace (hd (dropWhile isWhiteSpace s))" by (rule hd_dropWhile)
      moreover have "hd (dropWhile isWhiteSpace s) \<in> set (rev (dropWhile isWhiteSpace s))"
        using n by simp
      ultimately show False using a by (auto simp: dropWhile_eq_Nil_conv)
    qed
  next
    assume d: "dropWhile isWhiteSpace s = []"
    show "dropWhile isWhiteSpace (rev (dropWhile isWhiteSpace s)) = []"
      unfolding d by simp
  qed
  have "trim s = [] \<longleftrightarrow> dropWhile isWhiteSpace (rev (dropWhile isWhiteSpace s)) = []"
    by (simp add: trim_def)
  also have "\<dots> \<longleftrightarrow> dropWhile isWhiteSpace s = []" by (rule h)
  also have "\<dots> \<longleftrightarrow> list_all isWhiteSpace s"
    by (simp add: dropWhile_eq_Nil_conv list_all_iff)
  finally show ?thesis .
qed

subsection \<open>Plan filters\<close>

text \<open>
  C3. The plan filter reads \<open>plan_type\<close> only through its lower-cased form. With filter
  \<open>plus\<close> or \<open>team\<close> an account of the searched list passes exactly when the lower-cased
  \<open>plan_type\<close> of its usage entry contains the filter word; with \<open>free\<close> exactly when it is
  non-empty and contains neither \<open>plus\<close> nor \<open>team\<close>. Two usage entries whose plan types
  differ only in letter case are filtered alike, and the counters of \<open>filterCounts\<close> are
  the lengths of the filtered lists.
\<close>

theorem plan_filter_case_insensitive:
  "filteredAccounts st accs =
     filter (\<lambda>a. passes_plan_filter (filter_sel st) (lowered_plan_type (usageMap st) a))
       (searchedAccounts accs (searchQuery st))
   \<and> (plan_includes um (ascii ''plus'') a \<longleftrightarrow> passes_plan_filter F_plus (lowered_plan_type um a))
   \<and> (plan_includes um (ascii ''team'') a \<longleftrightarrow> passes_plan_filter F_team (lowered_plan_type um a))
   \<and> (plan_is_free um a \<longleftrightarrow> passes_plan_filter F_free (lowered_plan_type um a))
   \<and> count_plus (filterCounts st accs) = length (filteredAccounts (st\<lparr>filter_sel := F_plus\<rparr>) accs)
   \<and> count_team (filterCounts st accs) = length (filteredAccounts (st\<lparr>filter_sel := F_team\<rparr>) accs)
   \<and> count_free (filterCounts st accs) = length (filteredAccounts (st\<lparr>filter_sel := F_free\<rparr>) accs)
   \<and> (um (id_acc a) = Some u \<and> um' (id_acc a) = Some u'
        \<and> map_option toLowerCase (plan_type u) = map_option toLowerCase (plan_type u')
      \<longrightarrow> passes_plan_filter f (lowered_plan_type um a)
            = passes_plan_filter f (lowered_plan_type um' a))"
proof -
  have p: "\<And>w. plan_includes um w a \<longleftrightarrow>
      (case lowered_plan_type um a of None \<Rightarrow> False | Some p \<Rightarrow> includes_str p w)" for um a
    by (simp add: plan_includes_def lowered_plan_type_def split: option.splits)
  have f: "plan_is_free um a \<longleftrightarrow> passes_plan_filter F_free (lowered_plan_type um a)" for um a
    by (auto simp: plan_is_free_def passes_plan_filter_def lowered_plan_type_def toLowerCase_def
        ascii_def split: option.splits)
  have 2 [rule_format]: "\<And>um a. plan_includes um (ascii ''plus'') a \<longleftrightarrow> passes_plan_filter F_plus (lowered_plan_type um a)"
    "\<And>um a. plan_includes um (ascii ''team'') a \<longleftrightarrow> passes_plan_filter F_team (lowered_plan_type um a)"
    by (simp_all add: p passes_plan_filter_def)
  have e: "plan_includes um (ascii ''plus'') = (\<lambda>a. passes_plan_filter F_plus (lowered_plan_type um a))"
    "plan_includes um (ascii ''team'') = (\<lambda>a. passes_plan_filter F_team (lowered_plan_type um a))"
    "plan_is_free um = (\<lambda>a. passes_plan_filter F_free (lowered_plan_type um a))" for um
    by (rule ext, simp add: 2 f)+
  have 1: "filteredAccounts st accs =
     filter (\<lambda>a. passes_plan_filter (filter_sel st) (lowered_plan_type (usageMap st) a))
       (searchedAccounts accs (searchQuery st))"
    by (cases "filter_sel st") (simp_all add: filteredAccounts_def Let_def e, simp add: passes_plan_filter_def)
  have 3: "count_plus (filterCounts st accs) = length (filteredAccounts (st\<lparr>filter_sel := F_plus\<rparr>) accs)"
    "count_team (filterCounts st accs) = length (filteredAccounts (st\<lparr>filter_sel := F_team\<rparr>) accs)"
    "count_free (filterCounts st accs) = length (filteredAccounts (st\<lparr>filter_sel := F_free\<rparr>) accs)"
    by (simp_all add: filterCounts_def filteredAccounts_def Let_def)
  have 4: "um (id_acc a) = Some u \<and> um' (id_acc a) = Some u'
        \<and> map_option toLowerCase (plan_type u) = map_option toLowerCase (plan_type u')
      \<longrightarrow> passes_plan_filter f (lowered_plan_type um a)
            = passes_plan_filter f (lowered_plan_type um' a)"
    by (simp add: lowered_plan_type_def)
  show ?thesis using 1 2 3 f 4 by blast
qed

theorem plan_filter_case_insensitive_witness:
  "map_option toLowerCase (Some (ascii ''ChatGPT PLUS'')) = map_option toLowerCase (Some (ascii ''chatgpt plus''))
   \<and> passes_plan_filter F_plus
        (lowered_plan_type
           [ascii ''a1'' \<mapsto> \<lparr>five_hour_left = Fin 80, five_hour_reset = [], weekly_left = Fin 60,
              weekly_reset = [], plan_type = Some (ascii ''ChatGPT PLUS''), is_valid_for_cli = True\<rparr>]
           \<lparr>id_acc = ascii ''a1'', name = ascii ''work''\<rparr>)
   \<and> passes_plan_filter F_plus
        (lowered_plan_type
           [ascii ''a1'' \<mapsto> \<lparr>five_hour_left = Fin 80, five_hour_reset = [], weekly_left = Fin 60,
              weekly_reset = [], plan_type = Some (ascii ''chatgpt plus''), is_valid_for_cli = True\<rparr>]
           \<lparr>id_acc = ascii ''a1'', name = ascii ''work''\<rparr>)"
proof -
  let ?a = "\<lparr>id_acc = ascii ''a1'', name = ascii ''work''\<rparr>"
  let ?u = "\<lparr>five_hour_left = Fin 80, five_hour_reset = [], weekly_left = Fin 60,
              weekly_reset = [], plan_type = Some (ascii ''ChatGPT PLUS''), is_valid_for_cli = True\<rparr>"
  let ?u' = "\<lparr>five_hour_left = Fin 80, five_hour_reset = [], weekly_left = Fin 60,
              weekly_reset = [], plan_type = Some (ascii ''chatgpt plus''), is_valid_for_cli = True\<rparr>"
  have same: "map_option toLowerCase (Some (ascii ''ChatGPT PLUS''))
      = map_option toLowerCase (Some (ascii ''chatgpt plus''))"
    by (simp add: toLowerCase_def ascii_def)
  have hyp: "[ascii ''a1'' \<mapsto> ?u] (id_acc ?a) = Some ?u \<and> [ascii ''a1'' \<mapsto> ?u'] (id_acc ?a) = Some ?u'
      \<and> map_option toLowerCase (plan_type ?u) = map_option toLowerCase (plan_type ?u')"
    using same by simp
  have low: "passes_plan_filter F_plus (lowered_plan_type [ascii ''a1'' \<mapsto> ?u'] ?a)"
    by (simp add: passes_plan_filter_def lowered_plan_type_def toLowerCase_def ascii_def)
  from plan_filter_case_insensitive
    [where a = ?a and um = "[ascii ''a1'' \<mapsto> ?u]" and um' = "[ascii ''a1'' \<mapsto> ?u']"
       and u = ?u and u' = ?u' and f = F_plus and st = initial_AccountList and accs = "[]"]
  have "[ascii ''a1'' \<mapsto> ?u] (id_acc ?a) = Some ?u \<and> [ascii ''a1'' \<mapsto> ?u'] (id_acc ?a) = Some ?u'
      \<and> map_option toLowerCase (plan_type ?u) = map_option toLowerCase (plan_type ?u')
    \<longrightarrow> passes_plan_filter F_plus (lowered_plan_type [ascii ''a1'' \<mapsto> ?u] ?a)
        = passes_plan_filter F_plus (lowered_plan_type [ascii ''a1'' \<mapsto> ?u'] ?a)"
    by (elim conjE)
  with hyp low have "passes_plan_filter F_plus (lowered_plan_type [ascii ''a1'' \<mapsto> ?u] ?a)"
    by blast
  with same low show ?thesis by blast
qed

subsection \<open>Rejected remote calls\<close>








subsection \<open>Manual import\<close>

text \<open>
  C6. Submitting the official-import form checks the name before any remote call: when
  the trimmed name is empty the inline error is set and no call is made (the root hook is
  untouched); otherwise the first call is \<open>import_current_account\<close> with the trimmed name
  and with the trimmed notes, or with no notes when they are empty. The only further calls
  are the three of the reload after a successful import.
\<close>

theorem handleSubmitOfficial_name_check:
  "(case handleSubmitOfficial m app r r_load of
      (m', app', calls, onCloseCalled) \<Rightarrow>
        if trim (AddAccountModal.name m) = []
        then AddAccountModal.error m' = Some msg_enter_name \<and> calls = [] \<and> app' = app \<and> \<not> onCloseCalled
        else calls =
               import_current_account (trim (AddAccountModal.name m))
                 (if trim (notes m) = [] then None else Some (trim (notes m)))
               # (case r of
                    Inr _ \<Rightarrow> [get_accounts, get_current_account_id, get_settings]
                  | Inl _ \<Rightarrow> []))"
  by (simp add: handleSubmitOfficial_def importCurrent_def loadData_def handleClose_def Let_def
      split: sum.splits)

theorem handleSubmitOfficial_name_check_witness:
  "(case handleSubmitOfficial
           (initial_AddAccountModal\<lparr>AddAccountModal.name := ascii ''  work '', notes := ascii ''  ''\<rparr>)
           initial_useAccounts (Inr ()) (Inl (Thrown (ascii ''offline''))) of
      (m', app', calls, onCloseCalled) \<Rightarrow>
        calls = [import_current_account (ascii ''work'') None,
                 get_accounts, get_current_account_id, get_settings])
   \<and> (case handleSubmitOfficial
           (initial_AddAccountModal\<lparr>AddAccountModal.name := ascii ''work'', notes := ascii '' main ''\<rparr>)
           initial_useAccounts (Inl (Thrown (ascii ''offline''))) (Inl (Thrown (ascii ''offline''))) of
      (m', app', calls, onCloseCalled) \<Rightarrow>
        calls = [import_current_account (ascii ''work'') (Some (ascii ''main''))])
   \<and> (case handleSubmitOfficial (initial_AddAccountModal\<lparr>AddAccountModal.name := ascii ''   ''\<rparr>)
           initial_useAccounts (Inr ()) (Inl (Thrown (ascii ''offline''))) of
      (m', app', calls, onCloseCalled) \<Rightarrow>
        AddAccountModal.error m' = Some msg_enter_name \<and> calls = [])"
  using handleSubmitOfficial_name_check
      [where m = "initial_AddAccountModal\<lparr>AddAccountModal.name := ascii ''  work '', notes := ascii ''  ''\<rparr>"
         and app = initial_useAccounts and r = "Inr ()" and r_load = "Inl (Thrown (ascii ''offline''))"]
    handleSubmitOfficial_name_check
      [where m = "initial_AddAccountModal\<lparr>AddAccountModal.name := ascii ''work'', notes := ascii '' main ''\<rparr>"
         and app = initial_useAccounts and r = "Inl (Thrown (ascii ''offline''))"
         and r_load = "Inl (Thrown (ascii ''offline''))"]
    handleSubmitOfficial_name_check
      [where m = "initial_AddAccountModal\<lparr>AddAccountModal.name := ascii ''   ''\<rparr>"
         and app = initial_useAccounts and r = "Inr ()" and r_load = "Inl (Thrown (ascii ''offline''))"]
  by (simp add: trim_def isWhiteSpace_def ascii_def initial_AddAccountModal_def split: prod.splits)

subsection \<open>Timers\<close>

text \<open>
  C7. After a successful \<open>switch_account\<close> from \<open>handleSwitch\<close>, \<open>reload_ide_windows(false)\<close>
  is registered with a delay of 300 ms exactly when \<open>settings.auto_reload_ide\<close> holds, and
  the usage refresh with a delay of 500 ms in every case; after a rejected one no timer is
  registered. When \<open>finalize_oauth_login\<close> succeeds, the modal registers its
  \<open>onSuccess\<close>/\<open>onClose\<close> task with a delay of 1000 ms, and none when it fails.
\<close>

theorem switch_and_oauth_timers:
  "(case handleSwitch st i (Inr ()) r_load of
      (st', calls, timers, res) \<Rightarrow>
        hd calls = switch_account i
        \<and> ((300, reload_ide False) \<in> set timers \<longleftrightarrow> auto_reload_ide (settings st))
        \<and> (500, refresh_usage) \<in> set timers
        \<and> timers = (if auto_reload_ide (settings st) then [(300, reload_ide False)] else [])
                      @ [(500, refresh_usage)])
   \<and> (case handleSwitch st i (Inl err) r_load of (st', calls, timers, res) \<Rightarrow> timers = [])
   \<and> (case oauth_callback_received True m hook code (Inr account) r_load of
        (m', hook', calls, timers) \<Rightarrow>
          hd calls = finalize_oauth_login code \<and> timers = [(1000, success_then_close)])
   \<and> (case oauth_callback_received True m hook code (Inl err) r_load of
        (m', hook', calls, timers) \<Rightarrow> timers = [])"
  by (simp add: handleSwitch_def switchTo_def oauth_callback_received_def finalizeOAuthLogin_def
      loadData_def Let_def)

theorem switch_and_oauth_timers_witness:
  "(case handleSwitch
           (initial_useAccounts\<lparr>settings := (settings initial_useAccounts)\<lparr>auto_reload_ide := True\<rparr>\<rparr>)
           (ascii ''a1'') (Inr ()) (Inl (Thrown (ascii ''offline''))) of
      (st', calls, timers, res) \<Rightarrow>
        timers = [(300, reload_ide False), (500, refresh_usage)])
   \<and> (case handleSwitch initial_useAccounts (ascii ''a1'') (Inr ()) (Inl (Thrown (ascii ''offline''))) of
      (st', calls, timers, res) \<Rightarrow> timers = [(500, refresh_usage)])
   \<and> (case oauth_callback_received True initial_AddAccountModal initial_useAccounts (ascii ''code'')
           (Inr \<lparr>id_acc = ascii ''a1'', name = ascii ''work''\<rparr>) (Inl (Thrown (ascii ''offline''))) of
      (m', hook', calls, timers) \<Rightarrow> timers = [(1000, success_then_close)])"
  using switch_and_oauth_timers
      [where st = "initial_useAccounts\<lparr>settings := (settings initial_useAccounts)\<lparr>auto_reload_ide := True\<rparr>\<rparr>"
         and i = "ascii ''a1''" and r_load = "Inl (Thrown (ascii ''offline''))"
         and err = "Thrown (ascii ''offline'')" and m = initial_AddAccountModal
         and hook = initial_useAccounts and code = "ascii ''code''"
         and account = "\<lparr>id_acc = ascii ''a1'', name = ascii ''work''\<rparr>"]
    switch_and_oauth_timers
      [where st = initial_useAccounts
         and i = "ascii ''a1''" and r_load = "Inl (Thrown (ascii ''offline''))"
         and err = "Thrown (ascii ''offline'')" and m = initial_AddAccountModal
         and hook = initial_useAccounts and code = "ascii ''code''"
         and account = "\<lparr>id_acc = ascii ''a1'', name = ascii ''work''\<rparr>"]
  by (simp add: initial_useAccounts_def split: prod.splits)

subsection \<open>The current account\<close>

text \<open>
  C8. The current id is one nullable value of the hook's state, and an account is rendered
  as current exactly when its id equals it. So in every state, whatever operations led to
  it, two accounts rendered as current have the same id; with no current id none is; and
  \<open>currentAccount\<close> of the root view is an account of the list that is rendered as current.
\<close>

theorem at_most_one_current:
  "(isCurrent (currentId st) a \<longleftrightarrow> currentId st = Some (id_acc a))
   \<and> (isCurrent (currentId st) a \<and> isCurrent (currentId st) b \<longrightarrow> id_acc a = id_acc b)
   \<and> (currentId st = None \<longrightarrow> \<not> isCurrent (currentId st) a)
   \<and> (currentAccount st = Some a \<longrightarrow> isCurrent (currentId st) a \<and> a \<in> set (accounts st))"
proof (intro conjI impI)
  show "isCurrent (currentId st) a \<longleftrightarrow> currentId st = Some (id_acc a)"
    by (auto simp: isCurrent_def)
next
  assume "isCurrent (currentId st) a \<and> isCurrent (currentId st) b"
  then have "Some (id_acc a) = Some (id_acc b)" by (simp add: isCurrent_def)
  then show "id_acc a = id_acc b" by simp
next
  assume "currentId st = None"
  then show "\<not> isCurrent (currentId st) a" by (simp add: isCurrent_def)
next
  assume "currentAccount st = Some a"
  then show "isCurrent (currentId st) a" by (auto simp: isCurrent_def currentAccount_def find_Some_iff)
next
  assume "currentAccount st = Some a"
  then show "a \<in> set (accounts st)"
    by (auto simp: currentAccount_def find_Some_iff)
qed

theorem at_most_one_current_witness:
  "isCurrent (currentId (initial_useAccounts\<lparr>currentId := Some (ascii ''a1'')\<rparr>))
       \<lparr>id_acc = ascii ''a1'', name = ascii ''work''\<rparr>
   \<and> isCurrent (currentId (initial_useAccounts\<lparr>currentId := Some (ascii ''a1'')\<rparr>))
       \<lparr>id_acc = ascii ''a1'', name = ascii ''copy''\<rparr>
   \<and> id_acc \<lparr>id_acc = ascii ''a1'', name = ascii ''work''\<rparr>
       = id_acc \<lparr>id_acc = ascii ''a1'', name = ascii ''copy''\<rparr>
   \<and> currentId initial_useAccounts = None
   \<and> \<not> isCurrent (currentId initial_useAccounts) \<lparr>id_acc = ascii ''a1'', name = ascii ''work''\<rparr>
   \<and> currentAccount
         (initial_useAccounts\<lparr>accounts := [\<lparr>id_acc = ascii ''a1'', name = ascii ''work''\<rparr>],
            currentId := Some (ascii ''a1'')\<rparr>)
       = Some \<lparr>id_acc = ascii ''a1'', name = ascii ''work''\<rparr>"
  using at_most_one_current [of "initial_useAccounts\<lparr>currentId := Some (ascii ''a1'')\<rparr>"
      "\<lparr>id_acc = ascii ''a1'', name = ascii ''work''\<rparr>"
      "\<lparr>id_acc = ascii ''a1'', name = ascii ''copy''\<rparr>"]
    at_most_one_current [of initial_useAccounts "\<lparr>id_acc = ascii ''a1'', name = ascii ''work''\<rparr>"]
    at_most_one_current [of "initial_useAccounts\<lparr>accounts := [\<lparr>id_acc = ascii ''a1'', name = ascii ''work''\<rparr>],
          currentId := Some (ascii ''a1'')\<rparr>" "\<lparr>id_acc = ascii ''a1'', name = ascii ''work''\<rparr>"]
  by (simp add: initial_useAccounts_def ascii_def currentAccount_def isCurrent_def)

subsection \<open>Usage polling\<close>

text \<open>
  C9. \<open>fetchUsage\<close> ends with \<open>loading\<close> false in every case. When
  \<open>get_current_account_id\<close> returns null, or it rejects, or \<open>get_quota_by_id\<close> rejects, the
  stored usage is unchanged and \<open>error\<close> is a string. The stored usage changes only when
  both calls succeed, to the value the second one returned.
\<close>

theorem fetchUsage_outcomes:
  "useUsage.loading (fetchUsage st r_id r_quota) = False
   \<and> (r_id = Inr None \<or> isl r_id \<or> (\<exists>i. r_id = Inr (Some i) \<and> isl (r_quota i))
        \<longrightarrow> usage (fetchUsage st r_id r_quota) = usage st
            \<and> useUsage.error (fetchUsage st r_id r_quota) \<noteq> None)
   \<and> (usage (fetchUsage st r_id r_quota) \<noteq> usage st
        \<longrightarrow> (\<exists>i d. r_id = Inr (Some i) \<and> i \<noteq> [] \<and> r_quota i = Inr d
              \<and> usage (fetchUsage st r_id r_quota) = Some d))"
  by (auto simp: fetchUsage_def Let_def isl_def split: sum.splits option.splits)

theorem fetchUsage_outcomes_witness:
  "usage (fetchUsage (initial_useUsage\<lparr>usage := Some (7::nat)\<rparr>) (Inr None) (\<lambda>i. Inr 9)) = Some 7
   \<and> useUsage.error (fetchUsage (initial_useUsage\<lparr>usage := Some (7::nat)\<rparr>) (Inr None) (\<lambda>i. Inr 9))
       \<noteq> None
   \<and> usage (fetchUsage (initial_useUsage\<lparr>usage := Some (7::nat)\<rparr>)
        (Inr (Some (ascii ''a1''))) (\<lambda>i. Inl (Thrown (ascii ''offline'')))) = Some 7
   \<and> usage (fetchUsage (initial_useUsage\<lparr>usage := Some (7::nat)\<rparr>)
        (Inr (Some (ascii ''a1''))) (\<lambda>i. Inr 9)) = Some 9"
  using fetchUsage_outcomes [of "initial_useUsage\<lparr>usage := Some (7::nat)\<rparr>" "Inr None" "\<lambda>i. Inr 9"]
    fetchUsage_outcomes [of "initial_useUsage\<lparr>usage := Some (7::nat)\<rparr>"
      "Inr (Some (ascii ''a1''))" "\<lambda>i. Inl (Thrown (ascii ''offline''))"]
    fetchUsage_outcomes [of "initial_useUsage\<lparr>usage := Some (7::nat)\<rparr>"
      "Inr (Some (ascii ''a1''))" "\<lambda>i. Inr 9"]
  by (simp add: initial_useUsage_def fetchUsage_def ascii_def)

subsection \<open>Refreshing one account\<close>

text \<open>
  C10. After \<open>handleRefreshOne(id)\<close>, \<open>id\<close> is in the invalid set exactly when
  \<open>get_quota_by_id\<close> returned a result whose \<open>is_valid_for_cli\<close> is false, or rejected with an
  error whose string form contains \<open>TOKEN_INVALID\<close>; and \<open>id\<close> is not in the refreshing set.
\<close>

theorem handleRefreshOne_invalid:
  "(i \<in> invalidIds (handleRefreshOne st i r) \<longleftrightarrow>
      (case r of
         Inr u \<Rightarrow> \<not> is_valid_for_cli u
       | Inl err \<Rightarrow> includes_str (String_js err) (ascii ''TOKEN_INVALID'')))
   \<and> i \<notin> refreshingIds (handleRefreshOne st i r)"
  by (simp add: handleRefreshOne_def Let_def split: sum.splits)

theorem handleRefreshOne_invalid_witness:
  "ascii ''a1'' \<notin> invalidIds (handleRefreshOne (initial_AccountList\<lparr>invalidIds := {ascii ''a1''}\<rparr>)
       (ascii ''a1'')
       (Inr \<lparr>five_hour_left = Fin 80, five_hour_reset = [], weekly_left = Fin 60, weekly_reset = [],
             plan_type = Some (ascii ''plus''), is_valid_for_cli = True\<rparr>))
   \<and> ascii ''a1'' \<in> invalidIds (handleRefreshOne initial_AccountList (ascii ''a1'')
       (Inr \<lparr>five_hour_left = Fin 80, five_hour_reset = [], weekly_left = Fin 60, weekly_reset = [],
             plan_type = Some (ascii ''plus''), is_valid_for_cli = False\<rparr>))
   \<and> ascii ''a1'' \<in> invalidIds (handleRefreshOne initial_AccountList (ascii ''a1'')
       (Inl (Thrown (ascii ''401 TOKEN_INVALID''))))
   \<and> ascii ''a1'' \<notin> invalidIds (handleRefreshOne (initial_AccountList\<lparr>invalidIds := {ascii ''a1''}\<rparr>)
       (ascii ''a1'') (Inl (Thrown (ascii ''timeout''))))"
  using handleRefreshOne_invalid [where i = "ascii ''a1''" and st = "initial_AccountList\<lparr>invalidIds := {ascii ''a1''}\<rparr>"
      and r = "Inr \<lparr>five_hour_left = Fin 80, five_hour_reset = [], weekly_left = Fin 60, weekly_reset = [],
             plan_type = Some (ascii ''plus''), is_valid_for_cli = True\<rparr>"]
    handleRefreshOne_invalid [where i = "ascii ''a1''" and st = initial_AccountList
      and r = "Inr \<lparr>five_hour_left = Fin 80, five_hour_reset = [], weekly_left = Fin 60, weekly_reset = [],
             plan_type = Some (ascii ''plus''), is_valid_for_cli = False\<rparr>"]
    handleRefreshOne_invalid [where i = "ascii ''a1''" and st = initial_AccountList and r = "Inl (Thrown (ascii ''401 TOKEN_INVALID''))"]
    handleRefreshOne_invalid [where i = "ascii ''a1''" and st = "initial_AccountList\<lparr>invalidIds := {ascii ''a1''}\<rparr>"
      and r = "Inl (Thrown (ascii ''timeout''))"]
  by (simp add: ascii_def)

end
